theory Spec2Isabelle
  imports Complex_Main
begin

section \<open>Values of the request body\<close>

text \<open>
  The handler of \<^verbatim>\<open>app.py\<close> works on whatever \<^verbatim>\<open>request.get_json(force=True)\<close>
  returns: a Python value built from JSON. Python's \<^verbatim>\<open>json\<close> module yields \<^verbatim>\<open>None\<close>,
  \<^verbatim>\<open>bool\<close>, \<^verbatim>\<open>int\<close> (unbounded), \<^verbatim>\<open>float\<close>, \<^verbatim>\<open>str\<close>, \<^verbatim>\<open>list\<close> and \<^verbatim>\<open>dict\<close>.
  A float is kept by its exact value only: the handler never computes with one, it only
  tests it for zero and compares it with an integer, and Python does both exactly.
\<close>

datatype pyfloat = Finite rat | PosInf | NegInf | NaN

datatype jvalue =
    JNull
  | JBool bool
  | JInt int
  | JFloat pyfloat
  | JStr string
  | JArr "jvalue list"
  | JObj "(string \<times> jvalue) list"

text \<open>
  \<open>JObj kvs\<close> is the dictionary whose lookup is \<open>map_of kvs\<close>; the parser has
  resolved repeated keys before the handler sees the value.
\<close>

datatype py_error = AttributeError | TypeError

text \<open>Python truth value: what \<^verbatim>\<open>not message\<close> tests.\<close>

fun truthy :: "jvalue \<Rightarrow> bool" where
  "truthy JNull = False"
| "truthy (JBool b) = b"
| "truthy (JInt n) = (n \<noteq> 0)"
| "truthy (JFloat f) = (f \<noteq> Finite 0)"
| "truthy (JStr s) = (s \<noteq> [])"
| "truthy (JArr xs) = (xs \<noteq> [])"
| "truthy (JObj kvs) = (kvs \<noteq> [])"

text \<open>
  \<^verbatim>\<open>d.get(k, default)\<close>: only a \<^verbatim>\<open>dict\<close> has the method; on every other value of the
  body the attribute lookup raises \<^verbatim>\<open>AttributeError\<close>.
\<close>

definition py_get :: "jvalue \<Rightarrow> string \<Rightarrow> jvalue \<Rightarrow> py_error + jvalue" where
  "py_get d k dflt =
     (case d of
        JObj kvs \<Rightarrow> Inr (case map_of kvs k of None \<Rightarrow> dflt | Some v \<Rightarrow> v)
      | _ \<Rightarrow> Inl AttributeError)"

text \<open>A \<^verbatim>\<open>list\<close> or a \<^verbatim>\<open>dict\<close> cannot be hashed; every other value can.\<close>

fun hashable :: "jvalue \<Rightarrow> bool" where
  "hashable (JArr xs) = False"
| "hashable (JObj kvs) = False"
| "hashable v = True"

text \<open>
  \<^verbatim>\<open>v == n\<close> for an integer \<open>n\<close>: \<^verbatim>\<open>True == 1\<close>, \<^verbatim>\<open>False == 0\<close> and \<^verbatim>\<open>111.0 == 111\<close>
  hold in Python, and equal numbers hash alike, so this is also the equality a set of
  integers uses.
\<close>

fun py_eq :: "jvalue \<Rightarrow> int \<Rightarrow> bool" where
  "py_eq (JInt m) n = (m = n)"
| "py_eq (JBool b) n = ((if b then 1 else 0) = n)"
| "py_eq (JFloat f) n = (f = Finite (of_int n))"
| "py_eq v n = False"

text \<open>\<^verbatim>\<open>v in ids\<close> for a set of integers: hashing \<open>v\<close> comes first and may raise.\<close>

definition py_in :: "jvalue \<Rightarrow> int set \<Rightarrow> py_error + bool" where
  "py_in v ids = (if hashable v then Inr (\<exists>n\<in>ids. py_eq v n) else Inl TypeError)"

section \<open>Module state and the provider\<close>

text \<open>The module-level names of \<^verbatim>\<open>app.py\<close> that the handler reads.\<close>

record module_globals =
  BOT_TOKEN :: string
  USER_A :: string
  USER_B :: string
  WEBHOOK_URL :: "string option"
  USE_COPY :: bool
  REPLY_UNAUTHORIZED :: bool
  allowed_ids :: "int set"
  API_BASE :: string

text \<open>One \<^verbatim>\<open>requests.post(url, json=..., timeout=...)\<close>.\<close>

record post_call =
  url :: string
  json :: "(string \<times> jvalue) list"
  timeout :: nat

text \<open>
  What the handler uses of a \<^verbatim>\<open>requests.Response\<close>: the flag \<^verbatim>\<open>ok\<close>, and the status
  code and text it logs.
\<close>

record response =
  ok :: bool
  status_code :: int
  resp_text :: string

datatype post_outcome = Raised | Returned response

text \<open>
  The state a request runs in: the module's globals, and the calls made to the
  provider so far, oldest first. The provider is a parameter \<open>telegram\<close>: given how
  many calls came before and the call, it either raises (network error, timeout) or
  returns a response.
\<close>

record state =
  globals :: module_globals
  posted :: "post_call list"

type_synonym provider = "nat \<Rightarrow> post_call \<Rightarrow> post_outcome"

definition post :: "provider \<Rightarrow> post_call \<Rightarrow> state \<Rightarrow> post_outcome \<times> state" where
  "post telegram c s = (telegram (length (posted s)) c, s\<lparr>posted := posted s @ [c]\<rparr>)"

section \<open>Startup\<close>

datatype exit = SystemExit string

text \<open>
  Lines 30 to 47. \<open>environ\<close> is \<^verbatim>\<open>os.environ\<close>; \<open>py_int\<close> is Python's \<^verbatim>\<open>int\<close> on
  a string, \<open>None\<close> where it raises \<^verbatim>\<open>ValueError\<close>. \<^verbatim>\<open>not x\<close> holds of a missing
  variable and of the empty string.
\<close>

definition startup :: "(string \<Rightarrow> int option) \<Rightarrow> (string \<rightharpoonup> string) \<Rightarrow> exit + module_globals" where
  "startup py_int environ =
     (case (environ ''BOT_TOKEN'', environ ''USER_A_ID'', environ ''USER_B_ID'') of
        (Some tok, Some ua, Some ub) \<Rightarrow>
          if tok = [] \<or> ua = [] \<or> ub = [] then
            Inl (SystemExit ''Missing required environment variables (BOT_TOKEN, USER_A_ID, USER_B_ID).'')
          else
            (case py_int ua of
               None \<Rightarrow> Inl (SystemExit ''USER IDs must be integers.'')
             | Some a \<Rightarrow>
                (case py_int ub of
                   None \<Rightarrow> Inl (SystemExit ''USER IDs must be integers.'')
                 | Some b \<Rightarrow>
                     Inr \<lparr> BOT_TOKEN = tok, USER_A = ua, USER_B = ub,
                           WEBHOOK_URL = environ ''WEBHOOK_URL'',
                           USE_COPY = (case environ ''USE_COPY'' of None \<Rightarrow> True | Some v \<Rightarrow> v \<noteq> ''0''),
                           REPLY_UNAUTHORIZED =
                             (case environ ''REPLY_UNAUTHORIZED'' of None \<Rightarrow> True | Some v \<Rightarrow> v \<noteq> ''0''),
                           allowed_ids = {a, b},
                           API_BASE = ''https://api.telegram.org/bot'' @ tok \<rparr>))
      | _ \<Rightarrow>
          Inl (SystemExit ''Missing required environment variables (BOT_TOKEN, USER_A_ID, USER_B_ID).''))"

text \<open>
  An instance of \<open>py_int\<close> for the examples. On a non-empty string of ASCII decimal
  digits it gives the number Python's \<^verbatim>\<open>int\<close> gives, and on a string with an ASCII letter
  it gives \<open>None\<close> where \<^verbatim>\<open>int\<close> raises. The sign, the blanks, the underscores and
  the other digits that \<^verbatim>\<open>int\<close> accepts as well are left out: the examples have none.
\<close>

fun digits_value :: "nat \<Rightarrow> string \<Rightarrow> nat option" where
  "digits_value acc [] = Some acc"
| "digits_value acc (c # cs) =
     (let d = (of_char c :: nat) in
      if 48 \<le> d \<and> d \<le> 57 then digits_value (10 * acc + (d - 48)) cs else None)"

definition int_of_digits :: "string \<Rightarrow> int option" where
  "int_of_digits s = (if s = [] then None else map_option int (digits_value 0 s))"

section \<open>The webhook handler\<close>

text \<open>Lines 74 to 78: the three fields, each \<open>JNull\<close> (\<^verbatim>\<open>None\<close>) when absent.\<close>

definition extract_fields :: "jvalue \<Rightarrow> py_error + (jvalue \<times> jvalue \<times> jvalue)" where
  "extract_fields message =
     (case py_get message ''from'' (JObj []) of
        Inl e \<Rightarrow> Inl e
      | Inr from_user \<Rightarrow>
     (case py_get from_user ''id'' JNull of
        Inl e \<Rightarrow> Inl e
      | Inr sender_id \<Rightarrow>
     (case py_get message ''chat'' (JObj []) of
        Inl e \<Rightarrow> Inl e
      | Inr chat \<Rightarrow>
     (case py_get chat ''id'' JNull of
        Inl e \<Rightarrow> Inl e
      | Inr chat_id \<Rightarrow>
     (case py_get message ''message_id'' JNull of
        Inl e \<Rightarrow> Inl e
      | Inr message_id \<Rightarrow> Inr (sender_id, chat_id, message_id))))))"

text \<open>
  Lines 99 to 107. \<^verbatim>\<open>allowed_ids - {sender_id}\<close> hashes the sender, then keeps the
  members that differ from it. \<^verbatim>\<open>list(...)\<close> of a set has no specified order; the
  ascending one stands for it here, and the order is immaterial whenever the list has at
  most one element. \<open>None\<close> is either of the two early returns.
\<close>

definition resolve_recipient :: "int set \<Rightarrow> jvalue \<Rightarrow> py_error + int option" where
  "resolve_recipient ids sender_id =
     (if \<not> hashable sender_id then Inl TypeError
      else
        (case sorted_list_of_set {n \<in> ids. \<not> py_eq sender_id n} of
           [] \<Rightarrow> Inr None
         | recipient_id # _ \<Rightarrow>
             if py_eq sender_id recipient_id then Inr None else Inr (Some recipient_id)))"

definition notice :: "module_globals \<Rightarrow> jvalue \<Rightarrow> string \<Rightarrow> post_call" where
  "notice g sender_id msg =
     \<lparr> url = API_BASE g @ ''/sendMessage'',
       json = [(''chat_id'', sender_id), (''text'', JStr msg)],
       timeout = 5 \<rparr>"

text \<open>
  A best-effort call: \<^verbatim>\<open>try: requests.post(...) except Exception: pass\<close>. The outcome
  is dropped, whatever it is.
\<close>

definition best_effort :: "provider \<Rightarrow> post_call \<Rightarrow> state \<Rightarrow> state" where
  "best_effort telegram c s = snd (post telegram c s)"

text \<open>
  Lines 110 to 147. Both branches of \<^verbatim>\<open>if USE_COPY\<close> build the same dictionary. An
  exception of the dispatching call is caught by \<^verbatim>\<open>except Exception\<close>.
\<close>

definition relay_call :: "module_globals \<Rightarrow> int \<Rightarrow> jvalue \<Rightarrow> jvalue \<Rightarrow> post_call" where
  "relay_call g recipient_id chat_id message_id =
     (let method = (if USE_COPY g then ''copyMessage'' else ''forwardMessage'');
          payload = (if USE_COPY g
                     then [(''chat_id'', JInt recipient_id), (''from_chat_id'', chat_id),
                           (''message_id'', message_id)]
                     else [(''chat_id'', JInt recipient_id), (''from_chat_id'', chat_id),
                           (''message_id'', message_id)])
      in \<lparr> url = API_BASE g @ ''/'' @ method, json = payload, timeout = 8 \<rparr>)"

definition dispatch :: "provider \<Rightarrow> int \<Rightarrow> jvalue \<Rightarrow> jvalue \<Rightarrow> jvalue \<Rightarrow> state \<Rightarrow> state" where
  "dispatch telegram recipient_id sender_id chat_id message_id s =
     (case post telegram (relay_call (globals s) recipient_id chat_id message_id) s of
        (Returned resp, s1) \<Rightarrow>
          if \<not> ok resp then
            best_effort telegram
              (notice (globals s1) sender_id ''Failed to deliver the message to the other user.'') s1
          else s1
      | (Raised, s1) \<Rightarrow>
          best_effort telegram
            (notice (globals s1) sender_id ''An internal error occurred while forwarding your message.'') s1)"

text \<open>
  The body of a request as \<^verbatim>\<open>request.get_json(force=True)\<close> sees it: it raises, or it
  returns the parsed value.
\<close>

datatype request_body = Unparseable | Parsed jvalue

text \<open>
  \<^verbatim>\<open>webhook_handler\<close>, lines 58 to 149. The result is the status of the
  \<^verbatim>\<open>Response\<close> returned, or the exception that leaves the function (the framework then
  answers with a server error), together with the state after the request.
\<close>

definition webhook_handler :: "provider \<Rightarrow> state \<Rightarrow> request_body \<Rightarrow> (py_error + nat) \<times> state" where
  "webhook_handler telegram s body =
     (case body of
        Unparseable \<Rightarrow> (Inr 400, s)
      | Parsed payload \<Rightarrow>
     (case py_get payload ''message'' JNull of
        Inl e \<Rightarrow> (Inl e, s)
      | Inr message \<Rightarrow>
          if \<not> truthy message then (Inr 200, s)
          else
     (case extract_fields message of
        Inl e \<Rightarrow> (Inl e, s)
      | Inr (sender_id, chat_id, message_id) \<Rightarrow>
          if sender_id = JNull \<or> message_id = JNull \<or> chat_id = JNull then (Inr 200, s)
          else
     (case py_in sender_id (allowed_ids (globals s)) of
        Inl e \<Rightarrow> (Inl e, s)
      | Inr member \<Rightarrow>
          if \<not> member then
            (if REPLY_UNAUTHORIZED (globals s)
             then (Inr 200,
                   best_effort telegram
                     (notice (globals s) sender_id ''You are not authorized to use this bot.'') s)
             else (Inr 200, s))
          else
     (case resolve_recipient (allowed_ids (globals s)) sender_id of
        Inl e \<Rightarrow> (Inl e, s)
      | Inr None \<Rightarrow> (Inr 200, s)
      | Inr (Some recipient_id) \<Rightarrow>
          (Inr 200, dispatch telegram recipient_id sender_id chat_id message_id s))))))"

section \<open>Example configurations\<close>

text \<open>The scenario of the specification: identities 111 and 222, copy mode, replies on.\<close>

definition example_globals :: module_globals where
  "example_globals =
     \<lparr> BOT_TOKEN = ''123:ABC'', USER_A = ''111'', USER_B = ''222'', WEBHOOK_URL = None,
       USE_COPY = True, REPLY_UNAUTHORIZED = True, allowed_ids = {111, 222},
       API_BASE = ''https://api.telegram.org/bot123:ABC'' \<rparr>"

definition example_state :: state where
  "example_state = \<lparr> globals = example_globals, posted = [] \<rparr>"

definition forward_state :: state where
  "forward_state = \<lparr> globals = example_globals\<lparr>USE_COPY := False\<rparr>, posted = [] \<rparr>"

definition quiet_state :: state where
  "quiet_state = \<lparr> globals = example_globals\<lparr>REPLY_UNAUTHORIZED := False\<rparr>, posted = [] \<rparr>"

text \<open>A provider that accepts every call, and one that rejects the first and then is unreachable.\<close>

definition provider_ok :: provider where
  "provider_ok n c = Returned \<lparr> ok = True, status_code = 200, resp_text = [] \<rparr>"

definition provider_down :: provider where
  "provider_down n c =
     (if n = 0 then Returned \<lparr> ok = False, status_code = 403, resp_text = ''Forbidden'' \<rparr>
      else Raised)"

text \<open>An update with the three fields.\<close>

definition update_of :: "jvalue \<Rightarrow> jvalue \<Rightarrow> jvalue \<Rightarrow> jvalue" where
  "update_of sender_id chat_id message_id =
     JObj [(''update_id'', JInt 1),
           (''message'', JObj [(''message_id'', message_id),
                               (''from'', JObj [(''id'', sender_id)]),
                               (''chat'', JObj [(''id'', chat_id)])])]"

text \<open>Environments: both identities the same, one identity missing, one not a number.\<close>

definition equal_environ :: "string \<rightharpoonup> string" where
  "equal_environ =
     [''BOT_TOKEN'' \<mapsto> ''123:ABC'', ''USER_A_ID'' \<mapsto> ''111'', ''USER_B_ID'' \<mapsto> ''111'']"

definition missing_environ :: "string \<rightharpoonup> string" where
  "missing_environ = [''BOT_TOKEN'' \<mapsto> ''123:ABC'', ''USER_A_ID'' \<mapsto> ''111'']"

definition wordy_environ :: "string \<rightharpoonup> string" where
  "wordy_environ =
     [''BOT_TOKEN'' \<mapsto> ''123:ABC'', ''USER_A_ID'' \<mapsto> ''111'', ''USER_B_ID'' \<mapsto> ''bob'']"

section \<open>Auxiliary facts\<close>

lemma py_eq_unique: "py_eq v a \<Longrightarrow> py_eq v b \<Longrightarrow> a = b"
  by (cases v) (auto split: if_splits)

lemma py_eq_hashable: "py_eq v a \<Longrightarrow> hashable v"
  by (cases v) auto

lemma others_of_first:
  assumes "a \<noteq> b" and "py_eq v a"
  shows "{n \<in> {a, b}. \<not> py_eq v n} = {b}"
  using assms py_eq_unique [of v a b] by auto

lemma others_of_second:
  assumes "a \<noteq> b" and "py_eq v b"
  shows "{n \<in> {a, b}. \<not> py_eq v n} = {a}"
  using assms py_eq_unique [of v a b] by auto

lemma py_in_pair_True:
  "py_in v {a, b} = Inr True \<longleftrightarrow> py_eq v a \<or> py_eq v b"
  using py_eq_hashable [of v] by (auto simp: py_in_def)

lemma resolve_pair:
  assumes "a \<noteq> b" and "py_in v {a, b} = Inr True"
  shows "resolve_recipient {a, b} v = Inr (Some (if py_eq v a then b else a))"
    and "\<not> py_eq v (if py_eq v a then b else a)"
proof -
  from assms(2) have m: "py_eq v a \<or> py_eq v b" by (simp add: py_in_pair_True)
  then have h: "hashable v" using py_eq_hashable by blast
  show "resolve_recipient {a, b} v = Inr (Some (if py_eq v a then b else a))"
  proof (cases "py_eq v a")
    case True
    then have nb: "\<not> py_eq v b" using assms(1) py_eq_unique by blast
    have "sorted_list_of_set {n \<in> {a, b}. \<not> py_eq v n} = [b]"
      by (simp only: others_of_first [OF assms(1) True]) simp
    with True h nb show ?thesis
      unfolding resolve_recipient_def by simp
  next
    case False
    with m have vb: "py_eq v b" by simp
    have "sorted_list_of_set {n \<in> {a, b}. \<not> py_eq v n} = [a]"
      by (simp only: others_of_second [OF assms(1) vb]) simp
    with False h show ?thesis
      unfolding resolve_recipient_def by simp
  qed
  show "\<not> py_eq v (if py_eq v a then b else a)"
    using m assms(1) py_eq_unique by auto
qed

text \<open>A message from which a message id was extracted is a non-empty dictionary.\<close>

lemma fields_truthy:
  assumes "extract_fields message = Inr (sender_id, chat_id, message_id)"
    and "message_id \<noteq> JNull"
  shows "truthy message"
proof (cases message)
  case (JObj kvs)
  have "kvs \<noteq> []"
  proof
    assume "kvs = []"
    with JObj assms(1) have "message_id = JNull"
      by (simp add: extract_fields_def py_get_def)
    with assms(2) show False by simp
  qed
  with JObj show ?thesis by simp
qed (use assms(1) in \<open>simp_all add: extract_fields_def py_get_def\<close>)

lemma best_effort_eq: "best_effort telegram c s = s\<lparr>posted := posted s @ [c]\<rparr>"
  by (simp add: best_effort_def post_def)

lemma dispatch_eq:
  "dispatch telegram r sid cid mid s =
     s\<lparr>posted := posted s @ relay_call (globals s) r cid mid #
        (case telegram (length (posted s)) (relay_call (globals s) r cid mid) of
           Returned resp \<Rightarrow>
             if ok resp then []
             else [notice (globals s) sid ''Failed to deliver the message to the other user.'']
         | Raised \<Rightarrow>
             [notice (globals s) sid ''An internal error occurred while forwarding your message.''])\<rparr>"
  by (simp add: dispatch_def post_def best_effort_def split: post_outcome.splits)

lemma dispatch_globals: "globals (dispatch telegram r sid cid mid s) = globals s"
  by (simp add: dispatch_eq)

lemma handler_authorized:
  assumes "a \<noteq> b" and "allowed_ids (globals s) = {a, b}"
    and "payload = JObj kvs" and "map_of kvs ''message'' = Some message"
    and "extract_fields message = Inr (sender_id, chat_id, message_id)"
    and "chat_id \<noteq> JNull" and "message_id \<noteq> JNull"
    and "py_in sender_id {a, b} = Inr True"
  shows "webhook_handler telegram s (Parsed payload) =
           (Inr 200, dispatch telegram (if py_eq sender_id a then b else a)
                       sender_id chat_id message_id s)"
proof -
  have "sender_id \<noteq> JNull" using assms(8) by (auto simp: py_in_pair_True)
  moreover have "truthy message" using assms(5,7) by (rule fields_truthy)
  ultimately show ?thesis
    using assms resolve_pair(1) [OF assms(1) assms(8)]
    by (simp add: webhook_handler_def py_get_def)
qed

text \<open>
  With a single allowed identity, a message from it has no recipient: the guard of lines
  100 to 102 answers 200 and nothing is posted.
\<close>

lemma single_identity_no_relay:
  assumes "allowed_ids (globals s) = {a}"
    and "payload = JObj kvs" and "map_of kvs ''message'' = Some message"
    and "extract_fields message = Inr (sender_id, chat_id, message_id)"
    and "chat_id \<noteq> JNull" and "message_id \<noteq> JNull"
    and "py_eq sender_id a"
  shows "webhook_handler telegram s (Parsed payload) = (Inr 200, s)"
proof -
  have h: "hashable sender_id" using assms(7) by (rule py_eq_hashable)
  have n: "sender_id \<noteq> JNull" using assms(7) by auto
  have t: "truthy message" using assms(4,6) by (rule fields_truthy)
  have e: "{n \<in> {a}. \<not> py_eq sender_id n} = {}" using assms(7) by auto
  have "resolve_recipient {a} sender_id = Inr None"
    unfolding resolve_recipient_def e using h by simp
  then show ?thesis
    using assms h n t by (simp add: webhook_handler_def py_get_def py_in_def)
qed

text \<open>After a body that parsed, the handler answers 200 or an exception leaves it.\<close>

lemma handler_outcomes:
  "fst (webhook_handler telegram s (Parsed payload)) \<in> {Inr 200, Inl AttributeError, Inl TypeError}"
proof -
  have e: "x = AttributeError \<or> x = TypeError" for x :: py_error
    by (cases x) simp_all
  show ?thesis
    using e by (auto simp: webhook_handler_def split: sum.splits option.splits prod.splits)
qed

lemma update_of_fields:
  "extract_fields (JObj [(''message_id'', mid), (''from'', JObj [(''id'', sid)]), (''chat'', JObj [(''id'', cid)])])
     = Inr (sid, cid, mid)"
  by (simp add: extract_fields_def py_get_def)

lemma update_of_message:
  "map_of [(''update_id'', JInt 1),
           (''message'', JObj [(''message_id'', mid), (''from'', JObj [(''id'', sid)]),
                               (''chat'', JObj [(''id'', cid)])])] ''message''
     = Some (JObj [(''message_id'', mid), (''from'', JObj [(''id'', sid)]), (''chat'', JObj [(''id'', cid)])])"
  by simp

lemma example_allowed: "allowed_ids (globals example_state) = {111, 222}"
  by (simp add: example_state_def example_globals_def)

lemma forward_allowed: "allowed_ids (globals forward_state) = {111, 222}"
  by (simp add: forward_state_def example_globals_def)

lemma quiet_allowed: "allowed_ids (globals quiet_state) = {111, 222}"
  by (simp add: quiet_state_def example_globals_def)

lemma example_fields:
  "API_BASE (globals example_state) = ''https://api.telegram.org/bot123:ABC''"
  "USE_COPY (globals example_state)"
  "REPLY_UNAUTHORIZED (globals example_state)"
  "posted example_state = []"
  by (simp_all add: example_state_def example_globals_def)

lemma forward_fields:
  "API_BASE (globals forward_state) = ''https://api.telegram.org/bot123:ABC''"
  "\<not> USE_COPY (globals forward_state)"
  "posted forward_state = []"
  by (simp_all add: forward_state_def example_globals_def)

lemma quiet_fields:
  "\<not> REPLY_UNAUTHORIZED (globals quiet_state)"
  "posted quiet_state = []"
  by (simp_all add: quiet_state_def example_globals_def)

lemma member_111: "py_in (JInt 111) {111, 222} = Inr True"
  by (simp add: py_in_def)

lemma member_222: "py_in (JInt 222) {111, 222} = Inr True"
  by (simp add: py_in_def)

lemma stranger_999: "py_in (JInt 999) {111, 222} = Inr False"
  by (simp add: py_in_def)

lemma int_of_digits_111: "int_of_digits ''111'' = Some 111"
  by (simp add: int_of_digits_def)

lemma int_of_digits_bob: "int_of_digits ''bob'' = None"
  by (simp add: int_of_digits_def)

section \<open>Recipient resolution and dispatch\<close>

text \<open>
  Claim C1. Let the two configured identities \<open>a\<close> and \<open>b\<close> be distinct and the allowed
  set be \<open>{a, b}\<close>. For every payload whose message carries the three fields and whose
  sender identity is a member of the allowed set, the recipient resolved (lines 99 to
  107) is the member the sender is not: \<open>b\<close> when the sender equals \<open>a\<close>, and \<open>a\<close>
  otherwise. The handler hands this recipient to the dispatch step, the sender equals the
  other member, and the recipient never equals the sender.
\<close>

theorem recipient_is_other_member:
  assumes "a \<noteq> b" and "allowed_ids (globals s) = {a, b}"
    and "payload = JObj kvs" and "map_of kvs ''message'' = Some message"
    and "extract_fields message = Inr (sender_id, chat_id, message_id)"
    and "chat_id \<noteq> JNull" and "message_id \<noteq> JNull"
    and "py_in sender_id {a, b} = Inr True"
  shows "resolve_recipient (allowed_ids (globals s)) sender_id
           = Inr (Some (if py_eq sender_id a then b else a))
       \<and> webhook_handler telegram s (Parsed payload)
           = (Inr 200, dispatch telegram (if py_eq sender_id a then b else a)
                         sender_id chat_id message_id s)
       \<and> py_eq sender_id (if py_eq sender_id a then a else b)
       \<and> \<not> py_eq sender_id (if py_eq sender_id a then b else a)"
proof -
  have "py_eq sender_id a \<or> py_eq sender_id b"
    using assms(8) by (simp add: py_in_pair_True)
  then have "py_eq sender_id (if py_eq sender_id a then a else b)" by auto
  then show ?thesis
    using resolve_pair [OF assms(1) assms(8)] handler_authorized [OF assms] assms(2)
    by simp
qed

theorem recipient_is_other_member_witness:
  "resolve_recipient (allowed_ids (globals example_state)) (JInt 222) = Inr (Some 111)
   \<and> webhook_handler provider_ok example_state (Parsed (update_of (JInt 222) (JInt 222) (JInt 7)))
       = (Inr 200, dispatch provider_ok 111 (JInt 222) (JInt 222) (JInt 7) example_state)
   \<and> resolve_recipient (allowed_ids (globals example_state)) (JInt 111) = Inr (Some 222)
   \<and> webhook_handler provider_ok example_state (Parsed (update_of (JInt 111) (JInt 111) (JInt 42)))
       = (Inr 200, dispatch provider_ok 222 (JInt 111) (JInt 111) (JInt 42) example_state)"
proof -
  have d: "(111::int) \<noteq> 222" by simp
  have n: "JInt 222 \<noteq> JNull" "JInt 7 \<noteq> JNull" "JInt 111 \<noteq> JNull" "JInt 42 \<noteq> JNull"
    by simp_all
  show ?thesis
    using recipient_is_other_member
            [where telegram = provider_ok,
             OF d example_allowed update_of_def update_of_message update_of_fields n(1,2) member_222]
      recipient_is_other_member
            [where telegram = provider_ok,
             OF d example_allowed update_of_def update_of_message update_of_fields n(3,4) member_111]
    by simp
qed

text \<open>
  Claim C2. For every authorized message (three fields present, sender a member, the two
  identities distinct) the dispatch step posts one call after the calls made before: to
  \<^verbatim>\<open>copyMessage\<close> when \<^verbatim>\<open>USE_COPY\<close> is set and to \<^verbatim>\<open>forwardMessage\<close> otherwise, in both
  modes with \<^verbatim>\<open>chat_id\<close> the resolved recipient, \<^verbatim>\<open>from_chat_id\<close> the chat id of the message
  and \<^verbatim>\<open>message_id\<close> its message id. What follows it is nothing when the provider accepts
  the call and one \<^verbatim>\<open>sendMessage\<close> notice otherwise, so it is the only copy or forward.
\<close>

theorem dispatch_one_call_by_mode:
  assumes "a \<noteq> b" and "allowed_ids (globals s) = {a, b}"
    and "payload = JObj kvs" and "map_of kvs ''message'' = Some message"
    and "extract_fields message = Inr (sender_id, chat_id, message_id)"
    and "chat_id \<noteq> JNull" and "message_id \<noteq> JNull"
    and "py_in sender_id {a, b} = Inr True"
  shows "let relay = \<lparr> url = API_BASE (globals s) @
                              (if USE_COPY (globals s) then ''/copyMessage'' else ''/forwardMessage''),
                       json = [(''chat_id'', JInt (if py_eq sender_id a then b else a)),
                               (''from_chat_id'', chat_id), (''message_id'', message_id)],
                       timeout = 8 \<rparr>;
             failed = notice (globals s) sender_id ''Failed to deliver the message to the other user.'';
             crashed = notice (globals s) sender_id
                         ''An internal error occurred while forwarding your message.''
         in posted (snd (webhook_handler telegram s (Parsed payload)))
              = posted s @ relay #
                  (case telegram (length (posted s)) relay of
                     Returned resp \<Rightarrow> if ok resp then [] else [failed]
                   | Raised \<Rightarrow> [crashed])
          \<and> url failed = API_BASE (globals s) @ ''/sendMessage''
          \<and> url crashed = API_BASE (globals s) @ ''/sendMessage''"
proof -
  let ?r = "if py_eq sender_id a then b else a"
  have f: "relay_call (globals s) ?r chat_id message_id
             = \<lparr> url = API_BASE (globals s) @
                              (if USE_COPY (globals s) then ''/copyMessage'' else ''/forwardMessage''),
                       json = [(''chat_id'', JInt ?r), (''from_chat_id'', chat_id), (''message_id'', message_id)],
                       timeout = 8 \<rparr>"
    by (simp add: relay_call_def)
  have "posted (snd (webhook_handler telegram s (Parsed payload)))
          = posted s @ relay_call (globals s) ?r chat_id message_id #
              (case telegram (length (posted s)) (relay_call (globals s) ?r chat_id message_id) of
                 Returned resp \<Rightarrow>
                   if ok resp then []
                   else [notice (globals s) sender_id ''Failed to deliver the message to the other user.'']
               | Raised \<Rightarrow>
                   [notice (globals s) sender_id ''An internal error occurred while forwarding your message.''])"
    by (simp add: handler_authorized [OF assms] dispatch_eq)
  then show ?thesis
    unfolding f Let_def by (simp add: notice_def)
qed

theorem dispatch_one_call_by_mode_witness:
  "posted (snd (webhook_handler provider_ok example_state
                  (Parsed (update_of (JInt 111) (JInt 111) (JInt 42)))))
     = [\<lparr> url = ''https://api.telegram.org/bot123:ABC/copyMessage'',
          json = [(''chat_id'', JInt 222), (''from_chat_id'', JInt 111), (''message_id'', JInt 42)],
          timeout = 8 \<rparr>]
   \<and> posted (snd (webhook_handler provider_ok forward_state
                  (Parsed (update_of (JInt 222) (JInt 222) (JInt 7)))))
     = [\<lparr> url = ''https://api.telegram.org/bot123:ABC/forwardMessage'',
          json = [(''chat_id'', JInt 111), (''from_chat_id'', JInt 222), (''message_id'', JInt 7)],
          timeout = 8 \<rparr>]"
proof -
  have d: "(111::int) \<noteq> 222" by simp
  have n: "JInt 222 \<noteq> JNull" "JInt 7 \<noteq> JNull" "JInt 111 \<noteq> JNull" "JInt 42 \<noteq> JNull"
    by simp_all
  show ?thesis
    using dispatch_one_call_by_mode
            [where telegram = provider_ok,
             OF d example_allowed update_of_def update_of_message update_of_fields n(3,4) member_111]
      dispatch_one_call_by_mode
            [where telegram = provider_ok,
             OF d forward_allowed update_of_def update_of_message update_of_fields n(1,2) member_222]
    by (simp add: Let_def example_fields forward_fields provider_ok_def)
qed

text \<open>
  Claim C5. For every authorized message whose dispatching call returns a response that
  is not \<^verbatim>\<open>ok\<close>, the handler answers 200 and has posted, after the dispatching call,
  exactly one \<^verbatim>\<open>sendMessage\<close> to the sender with the failure text. This holds for every
  provider, so also when that notice itself raises or is rejected: its outcome changes
  nothing.
\<close>

theorem failed_dispatch_is_acknowledged:
  assumes "a \<noteq> b" and "allowed_ids (globals s) = {a, b}"
    and "payload = JObj kvs" and "map_of kvs ''message'' = Some message"
    and "extract_fields message = Inr (sender_id, chat_id, message_id)"
    and "chat_id \<noteq> JNull" and "message_id \<noteq> JNull"
    and "py_in sender_id {a, b} = Inr True"
    and "telegram (length (posted s))
           (relay_call (globals s) (if py_eq sender_id a then b else a) chat_id message_id)
         = Returned resp"
    and "\<not> ok resp"
  shows "webhook_handler telegram s (Parsed payload) =
           (Inr 200,
            s\<lparr>posted := posted s @
                 [relay_call (globals s) (if py_eq sender_id a then b else a) chat_id message_id,
                  \<lparr> url = API_BASE (globals s) @ ''/sendMessage'',
                    json = [(''chat_id'', sender_id),
                            (''text'', JStr ''Failed to deliver the message to the other user.'')],
                    timeout = 5 \<rparr>]\<rparr>)"
  using assms(9,10)
  by (simp add: handler_authorized [OF assms(1-8)] dispatch_eq notice_def)

theorem failed_dispatch_is_acknowledged_witness:
  "webhook_handler provider_down example_state (Parsed (update_of (JInt 111) (JInt 111) (JInt 42)))
     = (Inr 200,
        example_state\<lparr>posted :=
          [\<lparr> url = ''https://api.telegram.org/bot123:ABC/copyMessage'',
             json = [(''chat_id'', JInt 222), (''from_chat_id'', JInt 111), (''message_id'', JInt 42)],
             timeout = 8 \<rparr>,
           \<lparr> url = ''https://api.telegram.org/bot123:ABC/sendMessage'',
             json = [(''chat_id'', JInt 111),
                     (''text'', JStr ''Failed to deliver the message to the other user.'')],
             timeout = 5 \<rparr>]\<rparr>)
   \<and> provider_down 1 \<lparr> url = ''https://api.telegram.org/bot123:ABC/sendMessage'',
             json = [(''chat_id'', JInt 111),
                     (''text'', JStr ''Failed to deliver the message to the other user.'')],
             timeout = 5 \<rparr> = Raised"
proof -
  have d: "(111::int) \<noteq> 222" by simp
  have n: "JInt 111 \<noteq> JNull" "JInt 42 \<noteq> JNull" by simp_all
  have r: "provider_down (length (posted example_state))
             (relay_call (globals example_state) (if py_eq (JInt 111) 111 then 222 else 111)
                (JInt 111) (JInt 42))
           = Returned \<lparr> ok = False, status_code = 403, resp_text = ''Forbidden'' \<rparr>"
    by (simp add: provider_down_def example_fields)
  have k: "\<not> ok \<lparr> ok = False, status_code = 403, resp_text = ''Forbidden'' \<rparr>" by simp
  show ?thesis
    using failed_dispatch_is_acknowledged
            [where telegram = provider_down,
             OF d example_allowed update_of_def update_of_message update_of_fields n member_111 r k]
    by (simp add: example_fields relay_call_def provider_down_def)
qed

section \<open>Updates that are ignored or refused\<close>

text \<open>
  Claim C7. For every request body that cannot be parsed as JSON the handler answers
  400 and leaves the state as it was: no call is posted.
\<close>

theorem unparseable_body_is_rejected:
  "webhook_handler telegram s Unparseable = (Inr 400, s)"
  by (simp add: webhook_handler_def)

theorem unparseable_body_is_rejected_witness:
  "webhook_handler provider_ok example_state Unparseable = (Inr 400, example_state)
   \<and> posted (snd (webhook_handler provider_ok example_state Unparseable)) = []"
  using unparseable_body_is_rejected [of provider_ok example_state]
  by (simp add: example_fields)

text \<open>
  Updates of the expected shape that are incomplete. For every payload that is a JSON
  object with no \<^verbatim>\<open>message\<close> field, and for every such object whose message yields its
  three fields (\<^verbatim>\<open>from\<close> and \<^verbatim>\<open>chat\<close> absent or objects) with the sender identity, the
  chat identity or the message identifier missing, the handler answers 200 and posts no
  call.
\<close>

lemma incomplete_update_is_ignored:
  assumes "payload = JObj kvs"
    and "map_of kvs ''message'' = None
         \<or> (map_of kvs ''message'' = Some message
            \<and> extract_fields message = Inr (sender_id, chat_id, message_id)
            \<and> (sender_id = JNull \<or> chat_id = JNull \<or> message_id = JNull))"
  shows "webhook_handler telegram s (Parsed payload) = (Inr 200, s)"
  using assms by (auto simp: webhook_handler_def py_get_def)

lemma incomplete_update_is_ignored_witness:
  "webhook_handler provider_ok example_state (Parsed (JObj [(''update_id'', JInt 1)]))
     = (Inr 200, example_state)
   \<and> webhook_handler provider_ok example_state
       (Parsed (JObj [(''message'', JObj [(''message_id'', JInt 42), (''from'', JObj [(''id'', JInt 111)])])]))
     = (Inr 200, example_state)"
proof -
  have e: "extract_fields (JObj [(''message_id'', JInt 42), (''from'', JObj [(''id'', JInt 111)])])
             = Inr (JInt 111, JNull, JInt 42)"
    by (simp add: extract_fields_def py_get_def)
  show ?thesis
    using incomplete_update_is_ignored
            [of _ "[(''update_id'', JInt 1)]" _ _ _ _ provider_ok example_state]
      incomplete_update_is_ignored
            [of _ "[(''message'', JObj [(''message_id'', JInt 42), (''from'', JObj [(''id'', JInt 111)])])]"
               "JObj [(''message_id'', JInt 42), (''from'', JObj [(''id'', JInt 111)])]"
               "JInt 111" JNull "JInt 42" provider_ok example_state]
      e
    by simp
qed

text \<open>
  Claim C6 says that every parsed payload with no \<^verbatim>\<open>message\<close> field, and every payload
  whose message lacks the sender identity, the chat identity or the message identifier,
  is answered with 200 and no call. The handler does so only for the shapes of the lemma
  above. A body that parses to \<^verbatim>\<open>null\<close> has no \<^verbatim>\<open>message\<close> field, and line 69 raises on
  it. A message whose \<^verbatim>\<open>chat\<close> is \<^verbatim>\<open>null\<close> lacks the chat identity, and line 77 raises on
  it, where the same message without \<^verbatim>\<open>chat\<close> is answered with 200. A message that is a
  string lacks all three, and line 74 raises on it. No \<^verbatim>\<open>Response\<close> is returned in these
  cases.
\<close>

theorem missing_identity_raises:
  "webhook_handler provider_ok example_state (Parsed JNull) = (Inl AttributeError, example_state)
   \<and> webhook_handler provider_ok example_state
       (Parsed (JObj [(''message'', JObj [(''message_id'', JInt 42), (''from'', JObj [(''id'', JInt 111)]),
                                          (''chat'', JNull)])]))
     = (Inl AttributeError, example_state)
   \<and> webhook_handler provider_ok example_state
       (Parsed (JObj [(''message'', JObj [(''message_id'', JInt 42), (''from'', JObj [(''id'', JInt 111)])])]))
     = (Inr 200, example_state)
   \<and> webhook_handler provider_ok example_state (Parsed (JObj [(''message'', JStr ''hi'')]))
     = (Inl AttributeError, example_state)"
  by (simp add: webhook_handler_def extract_fields_def py_get_def)

text \<open>
  Claim C10. For every payload whose \<^verbatim>\<open>message\<close> field is present but falsy (an empty
  object, \<^verbatim>\<open>null\<close>, \<^verbatim>\<open>false\<close>, zero, an empty string or array) the handler answers 200 and
  posts no call, as for a payload with no such field.
\<close>

theorem falsy_message_is_ignored:
  assumes "payload = JObj kvs" and "map_of kvs ''message'' = Some message"
    and "\<not> truthy message"
  shows "webhook_handler telegram s (Parsed payload) = (Inr 200, s)"
  using assms by (simp add: webhook_handler_def py_get_def)

theorem falsy_message_is_ignored_witness:
  "webhook_handler provider_ok example_state (Parsed (JObj [(''message'', JObj [])]))
     = (Inr 200, example_state)
   \<and> webhook_handler provider_ok example_state (Parsed (JObj [(''message'', JNull)]))
     = (Inr 200, example_state)
   \<and> webhook_handler provider_ok example_state (Parsed (JObj [(''message'', JBool False)]))
     = (Inr 200, example_state)
   \<and> webhook_handler provider_ok example_state (Parsed (JObj [(''message'', JInt 0)]))
     = (Inr 200, example_state)"
  using falsy_message_is_ignored [of _ "[(''message'', JObj [])]" "JObj []" provider_ok example_state]
    falsy_message_is_ignored [of _ "[(''message'', JNull)]" JNull provider_ok example_state]
    falsy_message_is_ignored [of _ "[(''message'', JBool False)]" "JBool False" provider_ok example_state]
    falsy_message_is_ignored [of _ "[(''message'', JInt 0)]" "JInt 0" provider_ok example_state]
  by simp

text \<open>
  Claim C4, as the claim states it, fails: a message from a sender outside the allowed
  set that carries no chat identity is ignored at line 80, before the sender is looked
  at, and no reply is posted although \<^verbatim>\<open>REPLY_UNAUTHORIZED\<close> is set.
\<close>

theorem stranger_without_chat_gets_no_reply:
  "py_in (JInt 999) (allowed_ids (globals example_state)) = Inr False
   \<and> REPLY_UNAUTHORIZED (globals example_state)
   \<and> posted example_state = []
   \<and> webhook_handler provider_ok example_state
       (Parsed (JObj [(''message'', JObj [(''message_id'', JInt 42), (''from'', JObj [(''id'', JInt 999)])])]))
     = (Inr 200, example_state)"
  by (simp add: example_allowed example_fields stranger_999
      webhook_handler_def extract_fields_def py_get_def)

text \<open>
  Claim C4, amended. For every payload whose message carries a sender identity, a chat
  identity and a message identifier, and whose sender identity the membership test finds
  outside the allowed set, the handler answers 200; when \<^verbatim>\<open>REPLY_UNAUTHORIZED\<close> is set it
  posts exactly one call, a \<^verbatim>\<open>sendMessage\<close> whose \<^verbatim>\<open>chat_id\<close> is that sender identity, and
  when it is not set it posts none.
\<close>

theorem unauthorized_sender_is_refused:
  assumes "payload = JObj kvs" and "map_of kvs ''message'' = Some message"
    and "extract_fields message = Inr (sender_id, chat_id, message_id)"
    and "sender_id \<noteq> JNull" and "chat_id \<noteq> JNull" and "message_id \<noteq> JNull"
    and "py_in sender_id (allowed_ids (globals s)) = Inr False"
  shows "webhook_handler telegram s (Parsed payload) =
           (Inr 200,
            if REPLY_UNAUTHORIZED (globals s)
            then s\<lparr>posted := posted s @
                     [\<lparr> url = API_BASE (globals s) @ ''/sendMessage'',
                        json = [(''chat_id'', sender_id),
                                (''text'', JStr ''You are not authorized to use this bot.'')],
                        timeout = 5 \<rparr>]\<rparr>
            else s)"
proof -
  have "truthy message" using assms(3,6) by (rule fields_truthy)
  then show ?thesis
    using assms by (simp add: webhook_handler_def py_get_def best_effort_eq notice_def)
qed

theorem unauthorized_sender_is_refused_witness:
  "webhook_handler provider_down example_state (Parsed (update_of (JInt 999) (JInt 999) (JInt 5)))
     = (Inr 200,
        example_state\<lparr>posted :=
          [\<lparr> url = ''https://api.telegram.org/bot123:ABC/sendMessage'',
             json = [(''chat_id'', JInt 999),
                     (''text'', JStr ''You are not authorized to use this bot.'')],
             timeout = 5 \<rparr>]\<rparr>)
   \<and> webhook_handler provider_down quiet_state (Parsed (update_of (JInt 999) (JInt 999) (JInt 5)))
     = (Inr 200, quiet_state)"
proof -
  have n: "JInt 999 \<noteq> JNull" "JInt 5 \<noteq> JNull" by simp_all
  have s1: "py_in (JInt 999) (allowed_ids (globals example_state)) = Inr False"
    by (simp add: example_allowed stranger_999)
  have s2: "py_in (JInt 999) (allowed_ids (globals quiet_state)) = Inr False"
    by (simp add: quiet_allowed stranger_999)
  show ?thesis
    using unauthorized_sender_is_refused
            [where telegram = provider_down,
             OF update_of_def update_of_message update_of_fields n(1) n(1) n(2) s1]
      unauthorized_sender_is_refused
            [where telegram = provider_down,
             OF update_of_def update_of_message update_of_fields n(1) n(1) n(2) s2]
    by (simp add: example_fields quiet_fields)
qed

text \<open>
  Claim C3 says that every body that parses as JSON is answered with 200. The handler
  does not do so for a body that parses to something other than an update object: it
  calls \<^verbatim>\<open>.get\<close> on the payload, the message, \<^verbatim>\<open>from\<close> and \<^verbatim>\<open>chat\<close> and tests the sender for
  membership with no guard on their types, so an exception leaves the function and no
  \<^verbatim>\<open>Response\<close> is returned. Evaluated: a body that is an array; a message whose \<^verbatim>\<open>from\<close> is
  \<^verbatim>\<open>null\<close>, where the same message without \<^verbatim>\<open>from\<close> is answered with 200; and a sender
  identity that is an array.
\<close>

theorem wrong_shape_raises:
  "webhook_handler provider_ok example_state (Parsed (JArr [])) = (Inl AttributeError, example_state)
   \<and> webhook_handler provider_ok example_state
       (Parsed (JObj [(''message'', JObj [(''message_id'', JInt 42), (''chat'', JObj [(''id'', JInt 111)]),
                                          (''from'', JNull)])]))
     = (Inl AttributeError, example_state)
   \<and> webhook_handler provider_ok example_state
       (Parsed (JObj [(''message'', JObj [(''message_id'', JInt 42), (''chat'', JObj [(''id'', JInt 111)])])]))
     = (Inr 200, example_state)
   \<and> webhook_handler provider_ok example_state
       (Parsed (update_of (JArr [JInt 111]) (JInt 111) (JInt 42)))
     = (Inl TypeError, example_state)"
  by (simp add: webhook_handler_def extract_fields_def py_get_def py_in_def update_of_def)

section \<open>State and startup\<close>

text \<open>
  Claim C9. For every invocation of the handler, whatever the body and the provider, the
  module's globals (token, identities, the two toggles, the allowed set, the API base)
  are after the request what they were before it: the handler only adds to the calls
  posted.
\<close>

theorem handler_keeps_globals:
  "globals (snd (webhook_handler telegram s body)) = globals s"
  by (simp add: webhook_handler_def best_effort_eq dispatch_globals
      split: request_body.splits sum.splits option.splits prod.splits)

theorem handler_keeps_globals_witness:
  "globals (snd (webhook_handler provider_down example_state
                   (Parsed (update_of (JInt 111) (JInt 111) (JInt 42))))) = example_globals"
  using handler_keeps_globals
          [of provider_down example_state "Parsed (update_of (JInt 111) (JInt 111) (JInt 42))"]
  by (simp add: example_state_def)

text \<open>
  Claim C8, as the claim states it, fails: with both identity variables set to the same
  number the module starts, and the allowed set has that one member.
\<close>

theorem equal_identities_start:
  "startup int_of_digits equal_environ =
     Inr \<lparr> BOT_TOKEN = ''123:ABC'', USER_A = ''111'', USER_B = ''111'', WEBHOOK_URL = None,
           USE_COPY = True, REPLY_UNAUTHORIZED = True, allowed_ids = {111},
           API_BASE = ''https://api.telegram.org/bot123:ABC'' \<rparr>"
  by (simp add: startup_def equal_environ_def int_of_digits_111)

text \<open>
  Claim C8, amended. Startup validation enforces that the token and both identities are
  configured and that both identities are integers: the process refuses to start exactly
  when the token or an identity value is missing or empty, or an identity value is not
  an integer. Otherwise it starts, with the allowed set made of the two integers, whether
  or not they differ.
\<close>

theorem startup_refuses_iff:
  "((\<exists>e. startup py_int environ = Inl e) \<longleftrightarrow>
      environ ''BOT_TOKEN'' \<in> {None, Some []}
      \<or> environ ''USER_A_ID'' \<in> {None, Some []}
      \<or> environ ''USER_B_ID'' \<in> {None, Some []}
      \<or> (\<exists>ua. environ ''USER_A_ID'' = Some ua \<and> py_int ua = None)
      \<or> (\<exists>ub. environ ''USER_B_ID'' = Some ub \<and> py_int ub = None))
   \<and> (\<forall>g. startup py_int environ = Inr g \<longrightarrow>
          (\<exists>ua ub a b. environ ''USER_A_ID'' = Some ua \<and> py_int ua = Some a
                     \<and> environ ''USER_B_ID'' = Some ub \<and> py_int ub = Some b
                     \<and> allowed_ids g = {a, b}))"
  by (auto simp: startup_def split: option.splits if_splits)

theorem startup_refuses_iff_witness:
  "(\<exists>e. startup int_of_digits missing_environ = Inl e)
   \<and> (\<exists>e. startup int_of_digits wordy_environ = Inl e)
   \<and> (\<exists>ua ub a b. equal_environ ''USER_A_ID'' = Some ua \<and> int_of_digits ua = Some a
                 \<and> equal_environ ''USER_B_ID'' = Some ub \<and> int_of_digits ub = Some b
                 \<and> {111} = {a, b})"
proof -
  have m: "missing_environ ''USER_B_ID'' \<in> {None, Some []}"
    by (simp add: missing_environ_def)
  have w: "wordy_environ ''USER_B_ID'' = Some ''bob'' \<and> int_of_digits ''bob'' = None"
    by (simp add: wordy_environ_def int_of_digits_bob)
  have s: "startup int_of_digits equal_environ =
     Inr \<lparr> BOT_TOKEN = ''123:ABC'', USER_A = ''111'', USER_B = ''111'', WEBHOOK_URL = None,
           USE_COPY = True, REPLY_UNAUTHORIZED = True, allowed_ids = {111},
           API_BASE = ''https://api.telegram.org/bot123:ABC'' \<rparr>"
    by (simp add: startup_def equal_environ_def int_of_digits_111)
  have "\<exists>e. startup int_of_digits missing_environ = Inl e"
    using startup_refuses_iff [of int_of_digits missing_environ] m by blast
  moreover have "\<exists>e. startup int_of_digits wordy_environ = Inl e"
    using startup_refuses_iff [of int_of_digits wordy_environ] w by blast
  moreover have "\<exists>ua ub a b. equal_environ ''USER_A_ID'' = Some ua \<and> int_of_digits ua = Some a
                 \<and> equal_environ ''USER_B_ID'' = Some ub \<and> int_of_digits ub = Some b
                 \<and> {111} = {a, b}"
    using startup_refuses_iff [of int_of_digits equal_environ] s by force
  ultimately show ?thesis by blast
qed

end
